theory Spec2Isabelle
  imports Complex_Main
begin

section \<open>Renderer-native objects\<close>

text \<open>
  The facades mutate objects of the rendering library. Only the properties that the
  setters write (or test) are modelled. A JavaScript number is a \<open>real\<close>; it is falsy
  exactly when it is zero (NaN is outside the model).
\<close>

datatype TextureEncoding = LinearEncoding | sRGBEncoding | GammaEncoding

datatype Side = FrontSide | BackSide | DoubleSide

type_synonym RGB = "real \<times> real \<times> real"

text \<open>A renderer texture is a shared object: materials refer to it by identity.\<close>

type_synonym ref = nat

record ThreeTexture =
  encoding :: TextureEncoding

type_synonym texture_store = "ref \<Rightarrow> ThreeTexture"

record MeshStandardMaterial =
  map_tex :: "ref option"
  metalnessMap :: "ref option"
  normalMap :: "ref option"
  aoMap :: "ref option"
  emissiveMap :: "ref option"
  emissive :: RGB
  alphaTest :: real
  transparent :: bool
  depthWrite :: bool
  side :: Side
  needsUpdate :: bool

section \<open>Source document\<close>

datatype AlphaMode = OPAQUE | MASK | BLEND

text \<open>The glTF material fragment; every property the setters use is optional.\<close>

record GLTFMaterial =
  emissiveFactor :: "RGB option"
  alphaMode :: "AlphaMode option"
  alphaCutoff :: "real option"
  doubleSided :: "bool option"

section \<open>Outcome of a call\<close>

text \<open>
  A call either returns (\<open>Inr\<close> the state it leaves) or throws (\<open>Inl\<close> the error
  together with the state at the moment of the throw, since the writes made before the
  throw stay).
\<close>

datatype error = TypeError | Error string

type_synonym 's outcome = "(error \<times> 's) + 's"

definition leaves :: "'s outcome \<Rightarrow> 's" where
  "leaves r = (case r of Inl (e, s) \<Rightarrow> s | Inr s \<Rightarrow> s)"

section \<open>Material facade\<close>

text \<open>
  The correlated objects are a \<open>Set\<close> of distinct renderer materials, iterated in
  insertion order: a list whose positions are the objects. \<open>None\<close> is the null set of a
  document-only facade. The update callback is observed through the number of times it
  was invoked.
\<close>

record Material =
  sourceObject :: GLTFMaterial
  correlatedObjects :: "MeshStandardMaterial list option"
  onUpdate_calls :: nat

text \<open>\<open>Color.fromArray\<close> copies the three components of the array into the colour.\<close>

definition fromArray :: "RGB \<Rightarrow> RGB \<Rightarrow> RGB" where
  "fromArray colour rgb = (case rgb of (r, g, b) \<Rightarrow> (r, g, b))"

text \<open>Iterating a null set with \<open>for ... of\<close> throws a TypeError.\<close>

definition setEmissiveFactor :: "RGB \<Rightarrow> Material \<Rightarrow> Material outcome" where
  "setEmissiveFactor rgb this =
     (case correlatedObjects this of
        None \<Rightarrow> Inl (TypeError, this)
      | Some ms \<Rightarrow>
          Inr (this\<lparr>correlatedObjects :=
                      Some (map (\<lambda>material. material\<lparr>emissive := fromArray (emissive material) rgb\<rparr>) ms),
                    sourceObject := (sourceObject this)\<lparr>emissiveFactor := Some rgb\<rparr>,
                    onUpdate_calls := Suc (onUpdate_calls this)\<rparr>))"

definition setAlphaCutoff_body :: "AlphaMode option \<Rightarrow> real \<Rightarrow> MeshStandardMaterial \<Rightarrow> MeshStandardMaterial" where
  "setAlphaCutoff_body mode val material =
     (if alphaTest material = 0 \<and> \<not> transparent material then material\<lparr>alphaTest := - 0.5\<rparr>
      else if mode = Some MASK then material\<lparr>alphaTest := val\<rparr>
      else material)"

definition setAlphaCutoff :: "real \<Rightarrow> Material \<Rightarrow> Material outcome" where
  "setAlphaCutoff val this =
     (case correlatedObjects this of
        None \<Rightarrow> Inl (TypeError, this)
      | Some ms \<Rightarrow>
          Inr (this\<lparr>correlatedObjects :=
                      Some (map (setAlphaCutoff_body (alphaMode (sourceObject this)) val) ms),
                    sourceObject := (sourceObject this)\<lparr>alphaCutoff := Some val\<rparr>,
                    onUpdate_calls := Suc (onUpdate_calls this)\<rparr>))"

text \<open>
  The loop of \<open>setAlphaMode\<close> calls \<open>setAlphaCutoff\<close>, which visits every correlated
  object, from inside its own visit of one object: the loop runs over the positions of
  the set and each round transforms the whole facade.
\<close>

fun forEachIndex :: "(nat \<Rightarrow> 's \<Rightarrow> 's outcome) \<Rightarrow> nat list \<Rightarrow> 's \<Rightarrow> 's outcome" where
  "forEachIndex body [] s = Inr s"
| "forEachIndex body (i # is) s =
     (case body i s of Inl e \<Rightarrow> Inl e | Inr s' \<Rightarrow> forEachIndex body is s')"

definition updateObject :: "nat \<Rightarrow> (MeshStandardMaterial \<Rightarrow> MeshStandardMaterial) \<Rightarrow> Material \<Rightarrow> Material" where
  "updateObject i f this =
     (case correlatedObjects this of
        None \<Rightarrow> this
      | Some ms \<Rightarrow> this\<lparr>correlatedObjects := Some (ms[i := f (ms ! i)])\<rparr>)"

definition fireOnUpdate :: "Material \<Rightarrow> Material" where
  "fireOnUpdate this = this\<lparr>onUpdate_calls := Suc (onUpdate_calls this)\<rparr>"

definition setAlphaMode_body :: "AlphaMode \<Rightarrow> nat \<Rightarrow> Material \<Rightarrow> Material outcome" where
  "setAlphaMode_body mode i this =
     (let this1 = (if mode = BLEND
                   then fireOnUpdate (updateObject i (\<lambda>material. material\<lparr>transparent := True, depthWrite := False\<rparr>) this)
                   else this);
          this2 = (if mode = OPAQUE
                   then fireOnUpdate (updateObject i (\<lambda>material. material\<lparr>transparent := False, depthWrite := True\<rparr>) this1)
                   else this1)
      in if mode = MASK
         then (let this3 = updateObject i (\<lambda>material. material\<lparr>transparent := False, depthWrite := True\<rparr>) this2
               in setAlphaCutoff (case alphaCutoff (sourceObject this3) of Some c \<Rightarrow> c | None \<Rightarrow> 0.5) this3)
         else Inr this2)"

definition setAlphaMode :: "AlphaMode \<Rightarrow> Material \<Rightarrow> Material outcome" where
  "setAlphaMode mode this =
     (let this0 = this\<lparr>sourceObject := (sourceObject this)\<lparr>alphaMode := Some mode\<rparr>\<rparr>
      in case correlatedObjects this0 of
           None \<Rightarrow> Inl (TypeError, this0)
         | Some ms \<Rightarrow> forEachIndex (setAlphaMode_body mode) [0..<length ms] this0)"

definition setDoubleSided :: "bool \<Rightarrow> Material \<Rightarrow> Material outcome" where
  "setDoubleSided flag this =
     (case correlatedObjects this of
        None \<Rightarrow> Inl (TypeError, this)
      | Some ms \<Rightarrow>
          Inr (this\<lparr>correlatedObjects :=
                      Some (map (\<lambda>material. if flag = True then material\<lparr>side := DoubleSide\<rparr>
                                            else material\<lparr>side := FrontSide\<rparr>) ms),
                    onUpdate_calls := Suc (onUpdate_calls this)\<rparr>))"

section \<open>TextureInfo facade\<close>

datatype TextureUsage = Base | Metallic | Normal | Occlusion | Emissive

text \<open>
  The Texture facade handed to \<open>setTexture\<close> is read only through
  \<open>texture.source[$sourceTexture]\<close>, the renderer texture behind its image, which may
  be null.
\<close>

record Texture =
  sourceTexture :: "ref option"

record TextureInfo =
  texture :: "Texture option"
  materials :: "MeshStandardMaterial list option"
  usage :: TextureUsage
  onUpdate :: nat

text \<open>One round of the loop: the switch on the usage, then the dirty flag.\<close>

definition setTexture_body ::
  "TextureUsage \<Rightarrow> ref option \<Rightarrow> MeshStandardMaterial \<Rightarrow> TextureEncoding
     \<Rightarrow> MeshStandardMaterial \<times> TextureEncoding" where
  "setTexture_body u threeTexture material enc =
     (let (material1, enc1) =
            (case u of
               Base \<Rightarrow> (material\<lparr>map_tex := threeTexture\<rparr>, enc)
             | Metallic \<Rightarrow> (material\<lparr>metalnessMap := threeTexture\<rparr>, LinearEncoding)
             | Normal \<Rightarrow> (material\<lparr>normalMap := threeTexture\<rparr>, LinearEncoding)
             | Occlusion \<Rightarrow> (material\<lparr>aoMap := threeTexture\<rparr>, LinearEncoding)
             | Emissive \<Rightarrow> (material\<lparr>emissiveMap := threeTexture\<rparr>, enc))
      in (material1\<lparr>needsUpdate := True\<rparr>, enc1))"

fun setTexture_loop ::
  "TextureUsage \<Rightarrow> ref option \<Rightarrow> MeshStandardMaterial list \<Rightarrow> TextureEncoding
     \<Rightarrow> MeshStandardMaterial list \<times> TextureEncoding" where
  "setTexture_loop u threeTexture [] enc = ([], enc)"
| "setTexture_loop u threeTexture (material # rest) enc =
     (let (material', enc') = setTexture_body u threeTexture material enc;
          (rest', enc'') = setTexture_loop u threeTexture rest enc'
      in (material' # rest', enc''))"

text \<open>
  The state of a TextureInfo call is the facade together with the store of renderer
  textures, since the encoding is written onto the shared texture object.
\<close>

definition setTexture ::
  "Texture option \<Rightarrow> TextureInfo \<times> texture_store \<Rightarrow> (TextureInfo \<times> texture_store) outcome" where
  "setTexture tex st =
     (case st of (this, store) \<Rightarrow>
        (let threeTexture = (case tex of Some t \<Rightarrow> sourceTexture t | None \<Rightarrow> None);
             this1 = this\<lparr>texture := tex\<rparr>;
             (this2, enc) =
                (case materials this1 of
                   Some ms \<Rightarrow>
                     (let (ms', enc') = setTexture_loop (usage this1) threeTexture ms sRGBEncoding
                      in (this1\<lparr>materials := Some ms'\<rparr>, enc'))
                 | None \<Rightarrow> (this1, sRGBEncoding));
             store' = (case threeTexture of
                         Some a \<Rightarrow> store(a := (store a)\<lparr>encoding := enc\<rparr>)
                       | None \<Rightarrow> store)
         in Inr (this2\<lparr>onUpdate := Suc (onUpdate this2)\<rparr>, store')))"

text \<open>The property of a renderer material that a usage writes.\<close>

fun slot :: "TextureUsage \<Rightarrow> MeshStandardMaterial \<Rightarrow> ref option" where
  "slot Base material = map_tex material"
| "slot Metallic material = metalnessMap material"
| "slot Normal material = normalMap material"
| "slot Occlusion material = aoMap material"
| "slot Emissive material = emissiveMap material"

section \<open>Hotspot reducer\<close>

text \<open>
  A hotspot configuration carries a name; its other properties are not inspected by the
  reducer and are kept as \<open>detail\<close>.
\<close>

record 'a HotspotConfig =
  name :: string
  detail :: 'a

text \<open>The module-level variables of the reducer.\<close>

record HotspotModule =
  nextHotspotId :: nat
  hotspotNameSet :: "string set"

definition initialModule :: HotspotModule where
  "initialModule = \<lparr>nextHotspotId = 1, hotspotNameSet = {}\<rparr>"

datatype 'a Action =
    SET_HOTSPOTS "'a HotspotConfig list"
  | CLEAR_HOTSPOTS "'a HotspotConfig list"
  | REMOVE_HOTSPOT string
  | UPDATE_HOTSPOT "'a HotspotConfig"
  | ADD_HOTSPOT "'a HotspotConfig"
  | OTHER_ACTION

text \<open>\<open>Array.prototype.findIndex\<close>; \<open>None\<close> stands for the result -1.\<close>

fun findIndex :: "('a \<Rightarrow> bool) \<Rightarrow> 'a list \<Rightarrow> nat option" where
  "findIndex p [] = None"
| "findIndex p (x # xs) =
     (if p x then Some 0 else (case findIndex p xs of None \<Rightarrow> None | Some i \<Rightarrow> Some (Suc i)))"

definition findHotspotIndex :: "'a HotspotConfig list \<Rightarrow> string \<Rightarrow> error + nat" where
  "findHotspotIndex hotspots nm =
     (case findIndex (\<lambda>hotspot. name hotspot = nm) hotspots of
        None \<Rightarrow> Inl (Error (''Hotspot name doesn't exist: '' @ nm))
      | Some index \<Rightarrow> Inr index)"

text \<open>
  The reducer's helpers read and write the module variables; the array they are given
  is never mutated. A throw leaves the module variables as they are at that moment.
\<close>

type_synonym 'a reduced = "(error \<times> HotspotModule) + ('a HotspotConfig list \<times> HotspotModule)"

definition addHotspot ::
  "HotspotModule \<Rightarrow> 'a HotspotConfig list \<Rightarrow> 'a HotspotConfig \<Rightarrow> 'a reduced" where
  "addHotspot g state config =
     (if name config \<in> hotspotNameSet g
      then Inl (Error (''Hotspot name duplicate: '' @ name config), g)
      else Inr (state @ [config], g\<lparr>hotspotNameSet := insert (name config) (hotspotNameSet g)\<rparr>))"

text \<open>
  \<open>immutableArrayUpdate\<close> comes from the module reducer_utils, which is outside the
  modelled sources; it is a parameter of the model.
\<close>

definition updateHotspot ::
  "('a HotspotConfig list \<Rightarrow> nat \<Rightarrow> 'a HotspotConfig \<Rightarrow> 'a HotspotConfig list)
     \<Rightarrow> HotspotModule \<Rightarrow> 'a HotspotConfig list \<Rightarrow> 'a HotspotConfig \<Rightarrow> 'a reduced" where
  "updateHotspot immutableArrayUpdate g state config =
     (case findHotspotIndex state (name config) of
        Inl e \<Rightarrow> Inl (e, g)
      | Inr index \<Rightarrow> Inr (immutableArrayUpdate state index config, g))"

definition removeHotspot ::
  "HotspotModule \<Rightarrow> 'a HotspotConfig list \<Rightarrow> string \<Rightarrow> 'a reduced" where
  "removeHotspot g state nm =
     (case findHotspotIndex state nm of
        Inl e \<Rightarrow> Inl (e, g)
      | Inr index \<Rightarrow>
          Inr (take index state @ drop (Suc index) state,
               g\<lparr>hotspotNameSet := hotspotNameSet g - {nm}\<rparr>))"

text \<open>An undefined state (\<open>None\<close>) takes the default value, the empty array.\<close>

definition hotspotsReducer ::
  "('a HotspotConfig list \<Rightarrow> nat \<Rightarrow> 'a HotspotConfig \<Rightarrow> 'a HotspotConfig list)
     \<Rightarrow> HotspotModule \<Rightarrow> 'a HotspotConfig list option \<Rightarrow> 'a Action \<Rightarrow> 'a reduced" where
  "hotspotsReducer immutableArrayUpdate g state_opt action =
     (let state = (case state_opt of None \<Rightarrow> [] | Some s \<Rightarrow> s)
      in case action of
           SET_HOTSPOTS payload \<Rightarrow> Inr (payload, g)
         | CLEAR_HOTSPOTS payload \<Rightarrow> Inr (payload, g)
         | REMOVE_HOTSPOT payload \<Rightarrow> removeHotspot g state payload
         | UPDATE_HOTSPOT payload \<Rightarrow> updateHotspot immutableArrayUpdate g state payload
         | ADD_HOTSPOT payload \<Rightarrow> addHotspot g state payload
         | OTHER_ACTION \<Rightarrow> Inr (state, g))"

section \<open>Observable state and idempotence\<close>

text \<open>
  What a caller can observe of a Material after a call: the source document and the
  correlated renderer objects (the callback count is a trace of the calls, not state).
\<close>

definition observable :: "Material \<Rightarrow> GLTFMaterial \<times> MeshStandardMaterial list option" where
  "observable this = (sourceObject this, correlatedObjects this)"

definition observableT ::
  "TextureInfo \<times> texture_store
     \<Rightarrow> Texture option \<times> MeshStandardMaterial list option \<times> TextureUsage \<times> texture_store" where
  "observableT st = (case st of (this, store) \<Rightarrow> (texture this, materials this, usage this, store))"

text \<open>
  A setter is idempotent at a state when the second of two calls in a row ends as the
  first did (returned or threw) and leaves the observable state the first call left.
\<close>

definition idempotent_at :: "('s \<Rightarrow> 's outcome) \<Rightarrow> ('s \<Rightarrow> 'o) \<Rightarrow> 's \<Rightarrow> bool" where
  "idempotent_at f obs s =
     (obs (leaves (f (leaves (f s)))) = obs (leaves (f s))
      \<and> isl (f (leaves (f s))) = isl (f s))"

section \<open>Hotspot action creators\<close>

text \<open>The action creators that reset the module variables while building the action.\<close>

definition dispatchSetHotspots ::
  "HotspotModule \<Rightarrow> 'a HotspotConfig list \<Rightarrow> 'a Action \<times> HotspotModule" where
  "dispatchSetHotspots g hotspots =
     (SET_HOTSPOTS hotspots, g\<lparr>hotspotNameSet := set (map name hotspots), nextHotspotId := 1\<rparr>)"

definition dispatchClearHotspot :: "HotspotModule \<Rightarrow> 'a Action \<times> HotspotModule" where
  "dispatchClearHotspot g = (CLEAR_HOTSPOTS [], g\<lparr>hotspotNameSet := {}, nextHotspotId := 1\<rparr>)"

section \<open>Example objects\<close>

text \<open>A renderer material as the rendering library creates it.\<close>

definition defaultMaterial :: MeshStandardMaterial where
  "defaultMaterial =
     \<lparr>map_tex = None, metalnessMap = None, normalMap = None, aoMap = None, emissiveMap = None,
      emissive = (0, 0, 0), alphaTest = 0, transparent = False, depthWrite = True,
      side = FrontSide, needsUpdate = False\<rparr>"

text \<open>A material fragment of the source document that sets none of its optional properties.\<close>

definition emptyGLTFMaterial :: GLTFMaterial where
  "emptyGLTFMaterial =
     \<lparr>emissiveFactor = None, alphaMode = None, alphaCutoff = None, doubleSided = None\<rparr>"

text \<open>
  The Material constructor called without correlated materials registers the source
  fragment with a null set and returns at once: the document-only facade.
\<close>

definition documentOnlyMaterial :: "GLTFMaterial \<Rightarrow> Material" where
  "documentOnlyMaterial gltfMaterial =
     \<lparr>sourceObject = gltfMaterial, correlatedObjects = None, onUpdate_calls = 0\<rparr>"

text \<open>A facade over a source fragment and a set of renderer materials, no callback fired yet.\<close>

definition liveMaterial :: "GLTFMaterial \<Rightarrow> MeshStandardMaterial list \<Rightarrow> Material" where
  "liveMaterial gltfMaterial ms =
     \<lparr>sourceObject = gltfMaterial, correlatedObjects = Some ms, onUpdate_calls = 0\<rparr>"

definition exampleStore :: texture_store where
  "exampleStore = (\<lambda>a. \<lparr>encoding = GammaEncoding\<rparr>)"

definition exampleTextureInfo :: "TextureUsage \<Rightarrow> MeshStandardMaterial list option \<Rightarrow> TextureInfo" where
  "exampleTextureInfo u ms = \<lparr>texture = None, materials = ms, usage = u, onUpdate = 0\<rparr>"

definition hotspotA :: "unit HotspotConfig" where
  "hotspotA = \<lparr>name = ''a'', detail = ()\<rparr>"

section \<open>Loop invariant of setAlphaMode('MASK')\<close>

text \<open>
  The state after \<open>k\<close> rounds of the loop, for a facade whose stored-or-default cutoff is
  \<open>c\<close>, whose correlated objects were \<open>ms\<close> and whose callback had fired \<open>calls0\<close>
  times before the call.
\<close>

definition mask_round :: "real \<Rightarrow> MeshStandardMaterial list \<Rightarrow> nat \<Rightarrow> nat \<Rightarrow> Material \<Rightarrow> bool" where
  "mask_round c ms calls0 k t \<longleftrightarrow>
      alphaMode (sourceObject t) = Some MASK
    \<and> (case alphaCutoff (sourceObject t) of Some x \<Rightarrow> x | None \<Rightarrow> 0.5) = c
    \<and> (0 < k \<longrightarrow> alphaCutoff (sourceObject t) = Some c)
    \<and> onUpdate_calls t = calls0 + k
    \<and> (\<exists>ms'. correlatedObjects t = Some ms' \<and> length ms' = length ms
          \<and> (\<forall>j<k. \<not> transparent (ms' ! j) \<and> depthWrite (ms' ! j))
          \<and> (k = 0 \<longrightarrow> ms' = ms)
          \<and> (0 < k \<longrightarrow> (\<forall>j<length ms. alphaTest (ms' ! j) \<noteq> 0))
          \<and> (k = 1 \<longrightarrow> alphaTest (ms ! 0) \<noteq> 0 \<longrightarrow> alphaTest (ms' ! 0) = c)
          \<and> (1 < k \<longrightarrow> (\<forall>j<length ms. alphaTest (ms' ! j) = c)))"

section \<open>Emissive factor\<close>

text \<open>
  C2. For every Material with a non-null correlated object set and every RGB triple c,
  setEmissiveFactor(c) returns, and afterwards every correlated renderer object's
  emissive value equals c and the facade's emissiveFactor (read from the source
  document) equals c.
\<close>

theorem setEmissiveFactor_propagates:
  assumes "correlatedObjects M = Some ms"
  shows "\<exists>M' ms'. setEmissiveFactor c M = Inr M'
           \<and> emissiveFactor (sourceObject M') = Some c
           \<and> correlatedObjects M' = Some ms' \<and> length ms' = length ms
           \<and> (\<forall>obj \<in> set ms'. emissive obj = c)"
  using assms by (cases c) (simp add: setEmissiveFactor_def fromArray_def)

theorem setEmissiveFactor_propagates_witness:
  "correlatedObjects (liveMaterial emptyGLTFMaterial [defaultMaterial, defaultMaterial])
     = Some [defaultMaterial, defaultMaterial]
   \<and> (\<exists>M' ms'. setEmissiveFactor (1, 0.5, 0)
                   (liveMaterial emptyGLTFMaterial [defaultMaterial, defaultMaterial]) = Inr M'
         \<and> emissiveFactor (sourceObject M') = Some (1, 0.5, 0)
         \<and> correlatedObjects M' = Some ms'
         \<and> length ms' = length [defaultMaterial, defaultMaterial]
         \<and> (\<forall>obj \<in> set ms'. emissive obj = (1, 0.5, 0)))"
  using setEmissiveFactor_propagates
    [of "liveMaterial emptyGLTFMaterial [defaultMaterial, defaultMaterial]"
        "[defaultMaterial, defaultMaterial]" "(1, 0.5, 0)"]
  by (simp add: liveMaterial_def)

section \<open>Double-sidedness\<close>

text \<open>
  C3. setDoubleSided(flag) is claimed to set every correlated object's face culling,
  to persist the flag into the source document and to fire the callback once. On a
  facade over one default renderer material and an empty material fragment,
  setDoubleSided(true) sets the culling side and fires the callback once, but the source
  document is left as it was: its doubleSided property, which the facade's getter
  reads, is still unset.
\<close>

theorem setDoubleSided_not_persisted:
  "setDoubleSided True (liveMaterial emptyGLTFMaterial [defaultMaterial]) =
     Inr \<lparr>sourceObject = emptyGLTFMaterial,
          correlatedObjects = Some [defaultMaterial\<lparr>side := DoubleSide\<rparr>],
          onUpdate_calls = 1\<rparr>
   \<and> doubleSided (sourceObject (leaves (setDoubleSided True
        (liveMaterial emptyGLTFMaterial [defaultMaterial])))) = None"
  by (simp add: setDoubleSided_def liveMaterial_def emptyGLTFMaterial_def leaves_def)

section \<open>Document-only facades\<close>

text \<open>
  C8. Setters are claimed to return without throwing on a facade built without
  correlated objects. On the document-only Material each of setEmissiveFactor,
  setAlphaCutoff, setAlphaMode and setDoubleSided throws a TypeError (setAlphaMode
  after it has written the mode into the source document), while
  TextureInfo.setTexture, which tests its material set first, returns.
\<close>

theorem document_only_setters_throw:
  "setEmissiveFactor (1, 0, 0) (documentOnlyMaterial emptyGLTFMaterial)
     = Inl (TypeError, documentOnlyMaterial emptyGLTFMaterial)
   \<and> setAlphaCutoff 0.5 (documentOnlyMaterial emptyGLTFMaterial)
     = Inl (TypeError, documentOnlyMaterial emptyGLTFMaterial)
   \<and> setAlphaMode BLEND (documentOnlyMaterial emptyGLTFMaterial)
     = Inl (TypeError, documentOnlyMaterial (emptyGLTFMaterial\<lparr>alphaMode := Some BLEND\<rparr>))
   \<and> setDoubleSided True (documentOnlyMaterial emptyGLTFMaterial)
     = Inl (TypeError, documentOnlyMaterial emptyGLTFMaterial)
   \<and> isl (setTexture (Some \<lparr>sourceTexture = Some 0\<rparr>)
            (exampleTextureInfo Normal None, exampleStore)) = False"
  by (simp add: setEmissiveFactor_def setAlphaCutoff_def setAlphaMode_def setDoubleSided_def
      documentOnlyMaterial_def setTexture_def exampleTextureInfo_def)

section \<open>Texture slots\<close>

lemma setTexture_loop_slot:
  "m \<in> set (fst (setTexture_loop u t ms enc)) \<Longrightarrow> slot u m = t \<and> needsUpdate m"
  by (induction ms arbitrary: enc)
     (auto simp: split_def Let_def setTexture_body_def split: TextureUsage.splits)

lemma setTexture_body_again:
  "fst (setTexture_body u t (fst (setTexture_body u t m e)) e') = fst (setTexture_body u t m e)"
  by (cases u) (simp_all add: setTexture_body_def)

lemma setTexture_loop_again:
  "fst (setTexture_loop u t (fst (setTexture_loop u t ms e)) e') = fst (setTexture_loop u t ms e)"
  by (induction ms arbitrary: e e') (simp_all add: split_def Let_def setTexture_body_again)

lemma setTexture_loop_length: "length (fst (setTexture_loop u t ms enc)) = length ms"
  by (induction ms arbitrary: enc) (simp_all add: split_def Let_def)

lemma setTexture_body_enc:
  "snd (setTexture_body u t m enc) = (if u \<in> {Metallic, Normal, Occlusion} then LinearEncoding else enc)"
  by (cases u) (simp_all add: setTexture_body_def)

lemma setTexture_loop_enc:
  "snd (setTexture_loop u t ms enc) =
     (if ms \<noteq> [] \<and> u \<in> {Metallic, Normal, Occlusion} then LinearEncoding else enc)"
  by (induction ms arbitrary: enc) (simp_all add: split_def Let_def setTexture_body_enc)

lemma setTexture_loop_nonempty: "fst (setTexture_loop u t ms enc) = [] \<longleftrightarrow> ms = []"
  using setTexture_loop_length [of u t ms enc] by (metis length_0_conv)

text \<open>
  C6, as stated, fails when the correlated material set is non-null but empty: the loop
  that selects the linear encoding never runs, and a Normal slot stamps the
  colour-managed encoding.
\<close>

theorem setTexture_encoding_empty_set:
  "encoding (snd (leaves (setTexture (Some \<lparr>sourceTexture = Some 0\<rparr>)
       (exampleTextureInfo Normal (Some []), exampleStore))) 0) = sRGBEncoding"
  by (simp add: setTexture_def exampleTextureInfo_def leaves_def)

text \<open>
  C6 (amended). For every TextureInfo whose correlated material set is non-null and
  non-empty, and every texture t that has a renderer texture, setTexture(t) returns and
  the renderer texture's encoding is then the linear encoding when the usage is
  Metallic, Normal or Occlusion, and the colour-managed (sRGB) encoding when it is Base
  or Emissive.
\<close>

theorem setTexture_encoding:
  assumes "materials ti = Some ms" and "ms \<noteq> []" and "sourceTexture t = Some a"
  shows "\<exists>ti' store'. setTexture (Some t) (ti, store) = Inr (ti', store')
           \<and> encoding (store' a) =
               (if usage ti \<in> {Metallic, Normal, Occlusion} then LinearEncoding else sRGBEncoding)"
  using assms by (simp add: setTexture_def split_def Let_def setTexture_loop_enc)

theorem setTexture_encoding_witness:
  "materials (exampleTextureInfo Occlusion (Some [defaultMaterial])) = Some [defaultMaterial]
   \<and> [defaultMaterial] \<noteq> [] \<and> sourceTexture \<lparr>sourceTexture = Some 3\<rparr> = Some 3
   \<and> (\<exists>ti' store'. setTexture (Some \<lparr>sourceTexture = Some 3\<rparr>)
          (exampleTextureInfo Occlusion (Some [defaultMaterial]), exampleStore) = Inr (ti', store')
        \<and> encoding (store' 3) = LinearEncoding)"
  using setTexture_encoding [of "exampleTextureInfo Occlusion (Some [defaultMaterial])"
      "[defaultMaterial]" "\<lparr>sourceTexture = Some 3\<rparr>" 3 exampleStore]
  by (simp add: exampleTextureInfo_def)

text \<open>
  C7. For every TextureInfo, setTexture(null) returns (it cannot throw, whatever the
  slot held), leaves the facade without a texture, clears the slot of the usage on
  every correlated renderer object, leaves the renderer textures alone and fires the
  update callback exactly once.
\<close>

theorem setTexture_null_clears:
  "\<exists>ti'. setTexture None (ti, store) = Inr (ti', store)
     \<and> onUpdate ti' = Suc (onUpdate ti)
     \<and> texture ti' = None
     \<and> (\<forall>ms. materials ti = Some ms \<longrightarrow>
          (\<exists>ms'. materials ti' = Some ms' \<and> length ms' = length ms
             \<and> (\<forall>m \<in> set ms'. slot (usage ti) m = None)))"
  by (cases "materials ti")
     (auto simp: setTexture_def split_def Let_def setTexture_loop_length dest: setTexture_loop_slot)

theorem setTexture_null_clears_witness:
  "\<exists>ti'. setTexture None
            (exampleTextureInfo Emissive (Some [defaultMaterial, defaultMaterial]), exampleStore)
            = Inr (ti', exampleStore)
     \<and> onUpdate ti' = 1 \<and> texture ti' = None
     \<and> (\<exists>ms'. materials ti' = Some ms' \<and> length ms' = length [defaultMaterial, defaultMaterial]
           \<and> (\<forall>m \<in> set ms'. slot Emissive m = None))"
  using setTexture_null_clears
    [of "exampleTextureInfo Emissive (Some [defaultMaterial, defaultMaterial])" exampleStore]
  by (simp add: exampleTextureInfo_def)

text \<open>
  C10. For every TextureInfo whose correlated material set is null and every texture t
  that has a renderer texture, setTexture(t) returns, the renderer texture carries the
  colour-managed (sRGB) encoding whatever the usage of the slot, and the update
  callback has fired once.
\<close>

theorem setTexture_document_only_encoding:
  assumes "materials ti = None" and "sourceTexture t = Some a"
  shows "\<exists>ti' store'. setTexture (Some t) (ti, store) = Inr (ti', store')
           \<and> encoding (store' a) = sRGBEncoding
           \<and> onUpdate ti' = Suc (onUpdate ti)"
  using assms by (simp add: setTexture_def)

theorem setTexture_document_only_encoding_witness:
  "materials (exampleTextureInfo Normal None) = None
   \<and> sourceTexture \<lparr>sourceTexture = Some 3\<rparr> = Some 3
   \<and> (\<exists>ti' store'. setTexture (Some \<lparr>sourceTexture = Some 3\<rparr>)
                      (exampleTextureInfo Normal None, exampleStore) = Inr (ti', store')
        \<and> encoding (store' 3) = sRGBEncoding \<and> onUpdate ti' = 1)"
  using setTexture_document_only_encoding
    [of "exampleTextureInfo Normal None" "\<lparr>sourceTexture = Some 3\<rparr>" 3 exampleStore]
  by (simp add: exampleTextureInfo_def)

section \<open>Hotspots\<close>

text \<open>
  The reducer decides a duplicate by the module's name registry, not by the array it is
  given. The two disagree, for instance, after a set of hotspots with a repeated name
  was loaded and that name removed once: the array still holds the name, the registry
  does not.
\<close>

lemma registry_out_of_sync_reachable:
  "(case dispatchSetHotspots initialModule [hotspotA, hotspotA] of (action, g) \<Rightarrow>
      (case hotspotsReducer upd g None action of
         Inl e \<Rightarrow> None
       | Inr (state, g') \<Rightarrow>
           (case hotspotsReducer upd g' (Some state) (REMOVE_HOTSPOT ''a'') of
              Inl e \<Rightarrow> None
            | Inr r \<Rightarrow> Some r)))
     = Some ([hotspotA], initialModule)"
  by (simp add: dispatchSetHotspots_def hotspotsReducer_def removeHotspot_def
      findHotspotIndex_def initialModule_def hotspotA_def)

text \<open>
  C9, as stated, fails there: adding a hotspot whose name the array already holds
  returns an array with the entry added, and no error.
\<close>

theorem addHotspot_duplicate_not_in_registry:
  "hotspotsReducer (\<lambda>xs i x. xs[i := x]) initialModule (Some [hotspotA]) (ADD_HOTSPOT hotspotA)
     = Inr ([hotspotA, hotspotA], \<lparr>nextHotspotId = 1, hotspotNameSet = {''a''}\<rparr>)"
  by (simp add: hotspotsReducer_def addHotspot_def initialModule_def hotspotA_def)

text \<open>
  C9 (amended). For every hotspot array state and every ADD_HOTSPOT action whose config
  carries a name that is in the module's name registry, the reducer throws the
  duplicate-name error: it returns no array (so no entry is added) and the registry is
  unchanged.
\<close>

theorem addHotspot_registered_name_throws:
  assumes "name config \<in> hotspotNameSet g"
  shows "hotspotsReducer immutableArrayUpdate g state (ADD_HOTSPOT config)
           = Inl (Error (''Hotspot name duplicate: '' @ name config), g)"
  using assms by (simp add: hotspotsReducer_def addHotspot_def)

theorem addHotspot_registered_name_throws_witness:
  "name hotspotA \<in> hotspotNameSet \<lparr>nextHotspotId = 1, hotspotNameSet = {''a''}\<rparr>
   \<and> hotspotsReducer (\<lambda>xs i x. xs[i := x]) \<lparr>nextHotspotId = 1, hotspotNameSet = {''a''}\<rparr>
         (Some [hotspotA]) (ADD_HOTSPOT hotspotA)
       = Inl (Error ''Hotspot name duplicate: a'', \<lparr>nextHotspotId = 1, hotspotNameSet = {''a''}\<rparr>)"
  using addHotspot_registered_name_throws
    [of hotspotA "\<lparr>nextHotspotId = 1, hotspotNameSet = {''a''}\<rparr>"
        "\<lambda>xs i x. xs[i := x]" "Some [hotspotA]"]
  by (simp add: hotspotA_def)

section \<open>Alpha mode\<close>

lemma forEachIndex_append:
  "forEachIndex body (xs @ ys) s =
     (case forEachIndex body xs s of Inl e \<Rightarrow> Inl e | Inr s' \<Rightarrow> forEachIndex body ys s')"
  by (induction xs arbitrary: s) (auto split: sum.splits)

lemma forEachIndex_invariant:
  assumes init: "I 0 s"
    and step: "\<And>k t. k < n \<Longrightarrow> I k t \<Longrightarrow> \<exists>t'. body k t = Inr t' \<and> I (Suc k) t'"
  shows "\<exists>t. forEachIndex body [0..<n] s = Inr t \<and> I n t"
  using step
proof (induction n)
  case 0
  show ?case using init by simp
next
  case (Suc n)
  have "\<exists>t. forEachIndex body [0..<n] s = Inr t \<and> I n t"
    using Suc.IH Suc.prems by (meson less_Suc_eq)
  then obtain t where t: "forEachIndex body [0..<n] s = Inr t" "I n t" by blast
  from Suc.prems [of n t] t(2) obtain t' where t': "body n t = Inr t'" "I (Suc n) t'" by blast
  show ?case using t(1) t' by (simp add: forEachIndex_append)
qed

lemma setAlphaMode_body_MASK:
  assumes "correlatedObjects t = Some ms'"
  shows "setAlphaMode_body MASK k t =
     Inr (t\<lparr>correlatedObjects :=
               Some (map (setAlphaCutoff_body (alphaMode (sourceObject t))
                            (case alphaCutoff (sourceObject t) of Some x \<Rightarrow> x | None \<Rightarrow> 0.5))
                       (ms'[k := (ms' ! k)\<lparr>transparent := False, depthWrite := True\<rparr>])),
             sourceObject := (sourceObject t)\<lparr>alphaCutoff :=
                Some (case alphaCutoff (sourceObject t) of Some x \<Rightarrow> x | None \<Rightarrow> 0.5)\<rparr>,
             onUpdate_calls := Suc (onUpdate_calls t)\<rparr>)"
  using assms by (simp add: setAlphaMode_body_def updateObject_def setAlphaCutoff_def)

lemma setAlphaCutoff_body_keeps [simp]:
  "transparent (setAlphaCutoff_body mode v m) = transparent m"
  "depthWrite (setAlphaCutoff_body mode v m) = depthWrite m"
  by (simp_all add: setAlphaCutoff_body_def)

lemma setAlphaCutoff_body_MASK_nonzero:
  "alphaTest m \<noteq> 0 \<Longrightarrow> alphaTest (setAlphaCutoff_body (Some MASK) c m) = c"
  by (simp add: setAlphaCutoff_body_def)

lemma setAlphaCutoff_body_MASK_result:
  "c \<noteq> 0 \<Longrightarrow> alphaTest (setAlphaCutoff_body (Some MASK) c m) \<noteq> 0"
  by (simp add: setAlphaCutoff_body_def)

lemma mask_round_step:
  assumes c: "c \<noteq> 0" and k: "k < length ms" and inv: "mask_round c ms calls0 k t"
  shows "\<exists>t'. setAlphaMode_body MASK k t = Inr t' \<and> mask_round c ms calls0 (Suc k) t'"
proof -
  from inv obtain ms' where ms': "correlatedObjects t = Some ms'" "length ms' = length ms"
    and mode: "alphaMode (sourceObject t) = Some MASK"
    and cut: "(case alphaCutoff (sourceObject t) of Some x \<Rightarrow> x | None \<Rightarrow> 0.5) = c"
    and calls: "onUpdate_calls t = calls0 + k"
    and visited: "\<forall>j<k. \<not> transparent (ms' ! j) \<and> depthWrite (ms' ! j)"
    and first: "k = 0 \<longrightarrow> ms' = ms"
    and nonzero: "0 < k \<longrightarrow> (\<forall>j<length ms. alphaTest (ms' ! j) \<noteq> 0)"
    unfolding mask_round_def by blast
  let ?upd = "ms'[k := (ms' ! k)\<lparr>transparent := False, depthWrite := True\<rparr>]"
  let ?new = "map (setAlphaCutoff_body (Some MASK) c) ?upd"
  let ?t' = "t\<lparr>correlatedObjects := Some ?new,
               sourceObject := (sourceObject t)\<lparr>alphaCutoff := Some c\<rparr>,
               onUpdate_calls := Suc (onUpdate_calls t)\<rparr>"
  have body: "setAlphaMode_body MASK k t = Inr ?t'"
    using setAlphaMode_body_MASK [OF ms'(1), of k] mode cut by simp
  have len: "length ?new = length ms" using ms'(2) by simp
  have nth: "\<And>j. j < length ms \<Longrightarrow> ?new ! j = setAlphaCutoff_body (Some MASK) c (?upd ! j)"
    using ms'(2) by simp
  have flags: "\<forall>j<Suc k. \<not> transparent (?new ! j) \<and> depthWrite (?new ! j)"
  proof (intro allI impI)
    fix j assume j: "j < Suc k"
    then have jl: "j < length ms" using k by simp
    show "\<not> transparent (?new ! j) \<and> depthWrite (?new ! j)"
    proof (cases "j = k")
      case True
      then show ?thesis using nth [OF jl] ms'(2) k by simp
    next
      case False
      then have "j < k" using j by simp
      then show ?thesis using nth [OF jl] visited False by simp
    qed
  qed
  have nz: "\<forall>j<length ms. alphaTest (?new ! j) \<noteq> 0"
    using nth c by (simp add: setAlphaCutoff_body_MASK_result)
  have at0: "Suc k = 1 \<longrightarrow> alphaTest (ms ! 0) \<noteq> 0 \<longrightarrow> alphaTest (?new ! 0) = c"
  proof (intro impI)
    assume "Suc k = 1" and a: "alphaTest (ms ! 0) \<noteq> 0"
    then have k0: "k = 0" by simp
    then have "ms' = ms" using first by simp
    then have "alphaTest (?upd ! 0) \<noteq> 0" using a k k0 by simp
    then show "alphaTest (?new ! 0) = c"
      using nth [of 0] k k0 by (simp add: setAlphaCutoff_body_MASK_nonzero)
  qed
  have all: "1 < Suc k \<longrightarrow> (\<forall>j<length ms. alphaTest (?new ! j) = c)"
  proof (intro impI allI)
    fix j assume "1 < Suc k" and jl: "j < length ms"
    then have "0 < k" by simp
    then have "alphaTest (ms' ! j) \<noteq> 0" using nonzero jl by simp
    then have "alphaTest (?upd ! j) \<noteq> 0"
      using ms'(2) k jl nonzero \<open>0 < k\<close> by (cases "j = k") simp_all
    then show "alphaTest (?new ! j) = c"
      using nth [OF jl] by (simp add: setAlphaCutoff_body_MASK_nonzero)
  qed
  have "mask_round c ms calls0 (Suc k) ?t'"
    unfolding mask_round_def
    using mode calls len flags nz at0 all by simp
  with body show ?thesis by blast
qed

lemma setAlphaMode_MASK_rounds:
  assumes objs: "correlatedObjects M = Some ms"
    and c: "(case alphaCutoff (sourceObject M) of Some x \<Rightarrow> x | None \<Rightarrow> 0.5) = c" "c \<noteq> 0"
  shows "\<exists>M'. setAlphaMode MASK M = Inr M' \<and> mask_round c ms (onUpdate_calls M) (length ms) M'"
proof -
  let ?M0 = "M\<lparr>sourceObject := (sourceObject M)\<lparr>alphaMode := Some MASK\<rparr>\<rparr>"
  have init: "mask_round c ms (onUpdate_calls M) 0 ?M0"
    using objs c(1) by (simp add: mask_round_def)
  have "\<exists>t. forEachIndex (setAlphaMode_body MASK) [0..<length ms] ?M0 = Inr t
           \<and> mask_round c ms (onUpdate_calls M) (length ms) t"
    using init mask_round_step [OF c(2)]
    by (rule forEachIndex_invariant [where I = "mask_round c ms (onUpdate_calls M)"])
  then show ?thesis using objs by (simp add: setAlphaMode_def)
qed


text \<open>
  C1. On a Material whose alphaMode and alphaCutoff are unset, setAlphaMode('MASK') is
  claimed to give alphaMode 'MASK', alphaCutoff 0.5 and the alpha-test threshold 0.5 on
  every correlated renderer object. On a facade over a single renderer material as the
  rendering library creates it (alpha-test threshold zero), the mode and the cutoff are
  written, but the object ends at the threshold -0.5: the loop has just made it
  non-transparent, so setAlphaCutoff takes it for an opaque material, although it has
  just been put in MASK mode, and gives it the value kept for opaque materials. On an
  empty correlated set the loop never calls setAlphaCutoff and alphaCutoff stays unset.
\<close>

theorem setAlphaMode_MASK_sole_object_keeps_workaround:
  "setAlphaMode MASK (liveMaterial emptyGLTFMaterial [defaultMaterial]) =
     Inr \<lparr>sourceObject = emptyGLTFMaterial\<lparr>alphaMode := Some MASK, alphaCutoff := Some 0.5\<rparr>,
          correlatedObjects = Some [defaultMaterial\<lparr>alphaTest := - 0.5\<rparr>],
          onUpdate_calls = 1\<rparr>
   \<and> setAlphaMode MASK (liveMaterial emptyGLTFMaterial []) =
     Inr \<lparr>sourceObject = emptyGLTFMaterial\<lparr>alphaMode := Some MASK\<rparr>,
          correlatedObjects = Some [],
          onUpdate_calls = 0\<rparr>"
  by (simp add: setAlphaMode_def setAlphaMode_body_def liveMaterial_def upt_rec
      updateObject_def setAlphaCutoff_def setAlphaCutoff_body_def
      emptyGLTFMaterial_def defaultMaterial_def)

text \<open>
  The threshold of that single object is an accident of the loop. As soon as there are
  two correlated objects the later rounds find a non-zero threshold on every object and
  write 0.5, and so does the call on a single object whose threshold was not zero, for
  instance the same call made a second time.
\<close>

lemma setAlphaMode_MASK_other_paths:
  assumes "alphaMode (sourceObject M) = None" and "alphaCutoff (sourceObject M) = None"
    and "correlatedObjects M = Some ms" and "ms \<noteq> []"
  shows "\<exists>M' ms'. setAlphaMode MASK M = Inr M'
           \<and> alphaMode (sourceObject M') = Some MASK
           \<and> alphaCutoff (sourceObject M') = Some 0.5
           \<and> correlatedObjects M' = Some ms' \<and> length ms' = length ms
           \<and> (\<forall>obj \<in> set ms'. \<not> transparent obj \<and> depthWrite obj)
           \<and> (1 < length ms \<or> alphaTest (hd ms) \<noteq> 0 \<longrightarrow> (\<forall>obj \<in> set ms'. alphaTest obj = 0.5))"
proof -
  have c: "(case alphaCutoff (sourceObject M) of Some x \<Rightarrow> x | None \<Rightarrow> 0.5) = (0.5::real)"
    using assms(2) by simp
  have nz: "(0.5::real) \<noteq> 0" by simp
  from setAlphaMode_MASK_rounds [OF assms(3) c nz]
  obtain M' where M': "setAlphaMode MASK M = Inr M'"
    and inv: "mask_round 0.5 ms (onUpdate_calls M) (length ms) M'" by blast
  have pos: "0 < length ms" using assms(4) by simp
  from inv pos obtain ms' where ms': "correlatedObjects M' = Some ms'" "length ms' = length ms"
    and mode: "alphaMode (sourceObject M') = Some MASK"
    and cut: "alphaCutoff (sourceObject M') = Some 0.5"
    and flags: "\<forall>j<length ms. \<not> transparent (ms' ! j) \<and> depthWrite (ms' ! j)"
    and one: "length ms = 1 \<longrightarrow> alphaTest (ms ! 0) \<noteq> 0 \<longrightarrow> alphaTest (ms' ! 0) = 0.5"
    and many: "1 < length ms \<longrightarrow> (\<forall>j<length ms. alphaTest (ms' ! j) = 0.5)"
    unfolding mask_round_def by blast
  have flags': "\<forall>obj \<in> set ms'. \<not> transparent obj \<and> depthWrite obj"
    using flags ms'(2) by (auto simp: in_set_conv_nth)
  have thr: "1 < length ms \<or> alphaTest (hd ms) \<noteq> 0 \<longrightarrow> (\<forall>obj \<in> set ms'. alphaTest obj = 0.5)"
  proof (intro impI ballI)
    fix obj assume h: "1 < length ms \<or> alphaTest (hd ms) \<noteq> 0" and obj: "obj \<in> set ms'"
    from obj obtain j where j: "j < length ms" "obj = ms' ! j"
      using ms'(2) by (auto simp: in_set_conv_nth)
    show "alphaTest obj = 0.5"
    proof (cases "1 < length ms")
      case True
      then show ?thesis using many j by simp
    next
      case False
      then have l: "length ms = 1" using pos by arith
      then have "j = 0" using j by simp
      moreover have "alphaTest (ms ! 0) \<noteq> 0"
        using h False assms(4) by (simp add: hd_conv_nth)
      ultimately show ?thesis using one l j by simp
    qed
  qed
  show ?thesis using M' mode cut ms' flags' thr by blast
qed


lemma setAlphaMode_MASK_two_objects:
  "alphaMode (sourceObject (liveMaterial emptyGLTFMaterial [defaultMaterial, defaultMaterial])) = None
   \<and> alphaCutoff (sourceObject (liveMaterial emptyGLTFMaterial [defaultMaterial, defaultMaterial])) = None
   \<and> correlatedObjects (liveMaterial emptyGLTFMaterial [defaultMaterial, defaultMaterial])
       = Some [defaultMaterial, defaultMaterial]
   \<and> [defaultMaterial, defaultMaterial] \<noteq> []
   \<and> (\<exists>M' ms'. setAlphaMode MASK (liveMaterial emptyGLTFMaterial [defaultMaterial, defaultMaterial]) = Inr M'
         \<and> alphaMode (sourceObject M') = Some MASK
         \<and> alphaCutoff (sourceObject M') = Some 0.5
         \<and> correlatedObjects M' = Some ms'
         \<and> length ms' = length [defaultMaterial, defaultMaterial]
         \<and> (\<forall>obj \<in> set ms'. \<not> transparent obj \<and> depthWrite obj \<and> alphaTest obj = 0.5))"
  using setAlphaMode_MASK_other_paths
    [of "liveMaterial emptyGLTFMaterial [defaultMaterial, defaultMaterial]"
        "[defaultMaterial, defaultMaterial]"]
  by (simp add: liveMaterial_def emptyGLTFMaterial_def) blast

lemma setAlphaMode_MASK_second_call:
  "setAlphaMode MASK (leaves (setAlphaMode MASK (liveMaterial emptyGLTFMaterial [defaultMaterial]))) =
     Inr \<lparr>sourceObject = emptyGLTFMaterial\<lparr>alphaMode := Some MASK, alphaCutoff := Some 0.5\<rparr>,
          correlatedObjects = Some [defaultMaterial\<lparr>alphaTest := 0.5\<rparr>],
          onUpdate_calls = 2\<rparr>"
  by (simp add: setAlphaMode_def setAlphaMode_body_def liveMaterial_def upt_rec leaves_def
      updateObject_def setAlphaCutoff_def setAlphaCutoff_body_def
      emptyGLTFMaterial_def defaultMaterial_def)

text \<open>
  C5. setAlphaMode is claimed to invoke the update callback at most twice whatever the
  number of correlated objects. On a facade over three renderer materials,
  setAlphaMode('BLEND') invokes it three times: the invocation sits inside the loop
  over the correlated objects.
\<close>

theorem setAlphaMode_fires_per_object:
  "\<not> isl (setAlphaMode BLEND
            (liveMaterial emptyGLTFMaterial [defaultMaterial, defaultMaterial, defaultMaterial]))
   \<and> onUpdate_calls (leaves (setAlphaMode BLEND
        (liveMaterial emptyGLTFMaterial [defaultMaterial, defaultMaterial, defaultMaterial]))) = 3
   \<and> onUpdate_calls (leaves (setAlphaMode OPAQUE
        (liveMaterial emptyGLTFMaterial [defaultMaterial, defaultMaterial, defaultMaterial]))) = 3
   \<and> onUpdate_calls (leaves (setAlphaMode MASK
        (liveMaterial emptyGLTFMaterial [defaultMaterial, defaultMaterial, defaultMaterial]))) = 3"
  by (simp add: setAlphaMode_def setAlphaMode_body_def liveMaterial_def upt_rec leaves_def
      fireOnUpdate_def updateObject_def setAlphaCutoff_def emptyGLTFMaterial_def)

section \<open>Idempotence\<close>

text \<open>
  The setters whose writes do not depend on the prior state of the renderer objects
  repeat without effect on the observable state. For setTexture this is a statement
  about the dirty mark as a flag; a renderer that counts the marks sees each call.
\<close>


lemma setEmissiveFactor_idempotent: "idempotent_at (setEmissiveFactor c) observable M"
  by (cases "correlatedObjects M"; cases c)
     (simp_all add: idempotent_at_def setEmissiveFactor_def leaves_def observable_def fromArray_def)

lemma setDoubleSided_idempotent: "idempotent_at (setDoubleSided flag) observable M"
  by (cases "correlatedObjects M")
     (simp_all add: idempotent_at_def setDoubleSided_def leaves_def observable_def)

lemma setTexture_idempotent: "idempotent_at (setTexture t) observableT (ti, store)"
proof (cases "materials ti")
  case None
  then show ?thesis
    by (simp add: idempotent_at_def setTexture_def leaves_def observableT_def split: option.splits)
next
  case (Some ms)
  then show ?thesis
    by (simp add: idempotent_at_def setTexture_def leaves_def observableT_def split_def Let_def
        setTexture_loop_again setTexture_loop_enc setTexture_loop_nonempty split: option.splits)
qed

lemma round_list_update:
  assumes "k < length ms"
  shows "(map f (take k ms) @ drop k ms)[k := f ((map f (take k ms) @ drop k ms) ! k)]
           = map f (take (Suc k) ms) @ drop (Suc k) ms"
proof -
  have d: "drop k ms = ms ! k # drop (Suc k) ms"
    using assms by (simp add: Cons_nth_drop_Suc)
  have l: "length (map f (take k ms)) = k" using assms by simp
  have "(map f (take k ms) @ ms ! k # drop (Suc k) ms)[k := f (ms ! k)]
          = map f (take k ms) @ f (ms ! k) # drop (Suc k) ms"
    using list_update_length [of "map f (take k ms)" "ms ! k" "drop (Suc k) ms" "f (ms ! k)"] l by simp
  moreover have "(map f (take k ms) @ drop k ms) ! k = ms ! k"
    using assms by (simp add: nth_append)
  ultimately show ?thesis
    using assms d by (simp add: take_Suc_conv_app_nth)
qed

lemma setAlphaMode_body_plain:
  assumes "mode \<noteq> MASK" and "correlatedObjects t = Some ms'"
  shows "setAlphaMode_body mode k t =
     Inr (t\<lparr>correlatedObjects :=
               Some (ms'[k := (ms' ! k)\<lparr>transparent := (mode = BLEND), depthWrite := (mode \<noteq> BLEND)\<rparr>]),
             onUpdate_calls := Suc (onUpdate_calls t)\<rparr>)"
  using assms by (cases mode) (simp_all add: setAlphaMode_body_def updateObject_def fireOnUpdate_def)

lemma setAlphaMode_plain:
  assumes mode: "mode \<noteq> MASK" and objs: "correlatedObjects M = Some ms"
  shows "setAlphaMode mode M =
     Inr (M\<lparr>sourceObject := (sourceObject M)\<lparr>alphaMode := Some mode\<rparr>,
             correlatedObjects :=
               Some (map (\<lambda>m. m\<lparr>transparent := (mode = BLEND), depthWrite := (mode \<noteq> BLEND)\<rparr>) ms),
             onUpdate_calls := onUpdate_calls M + length ms\<rparr>)"
proof -
  let ?f = "\<lambda>m::MeshStandardMaterial. m\<lparr>transparent := (mode = BLEND), depthWrite := (mode \<noteq> BLEND)\<rparr>"
  let ?M0 = "M\<lparr>sourceObject := (sourceObject M)\<lparr>alphaMode := Some mode\<rparr>\<rparr>"
  let ?I = "\<lambda>k t. t = ?M0\<lparr>correlatedObjects := Some (map ?f (take k ms) @ drop k ms),
                           onUpdate_calls := onUpdate_calls M + k\<rparr>"
  have init: "?I 0 ?M0" using objs by simp
  have step: "\<And>k t. k < length ms \<Longrightarrow> ?I k t \<Longrightarrow>
                 \<exists>t'. setAlphaMode_body mode k t = Inr t' \<and> ?I (Suc k) t'"
  proof -
    fix k t assume k: "k < length ms" and t: "?I k t"
    have co: "correlatedObjects t = Some (map ?f (take k ms) @ drop k ms)" using t by simp
    show "\<exists>t'. setAlphaMode_body mode k t = Inr t' \<and> ?I (Suc k) t'"
      using setAlphaMode_body_plain [OF mode co, of k] round_list_update [OF k, of ?f] t
      by simp
  qed
  have "\<exists>t. forEachIndex (setAlphaMode_body mode) [0..<length ms] ?M0 = Inr t \<and> ?I (length ms) t"
    using init step by (rule forEachIndex_invariant [where I = ?I])
  then show ?thesis using objs by (simp add: setAlphaMode_def)
qed

text \<open>In general the callback fires as many times as there are correlated objects.\<close>

lemma setAlphaMode_callback_count:
  assumes "mode \<noteq> MASK" and "correlatedObjects M = Some ms"
  shows "onUpdate_calls (leaves (setAlphaMode mode M)) = onUpdate_calls M + length ms"
  by (simp add: setAlphaMode_plain [OF assms] leaves_def)

lemma setAlphaMode_MASK_callback_count:
  assumes "correlatedObjects M = Some ms"
    and "(case alphaCutoff (sourceObject M) of Some x \<Rightarrow> x | None \<Rightarrow> 0.5) \<noteq> 0"
  shows "onUpdate_calls (leaves (setAlphaMode MASK M)) = onUpdate_calls M + length ms"
  using setAlphaMode_MASK_rounds [OF assms(1) refl assms(2)]
  by (auto simp: leaves_def mask_round_def)

lemma setAlphaMode_plain_idempotent:
  assumes "mode \<noteq> MASK"
  shows "idempotent_at (setAlphaMode mode) observable M"
proof (cases "correlatedObjects M")
  case None
  then show ?thesis
    by (simp add: idempotent_at_def setAlphaMode_def leaves_def observable_def)
next
  case (Some ms)
  show ?thesis
    using setAlphaMode_plain [OF assms Some]
    by (simp add: idempotent_at_def leaves_def observable_def setAlphaMode_plain [OF assms])
qed

lemma setAlphaCutoff_body_again:
  assumes "mode \<noteq> Some MASK \<or> (v \<noteq> 0 \<and> (alphaTest m \<noteq> 0 \<or> transparent m))"
  shows "setAlphaCutoff_body mode v (setAlphaCutoff_body mode v m) = setAlphaCutoff_body mode v m"
  using assms by (auto simp: setAlphaCutoff_body_def)

lemma setAlphaCutoff_idempotent:
  assumes "alphaMode (sourceObject M) \<noteq> Some MASK
           \<or> (v \<noteq> 0 \<and> (\<forall>ms. correlatedObjects M = Some ms \<longrightarrow>
                             (\<forall>m \<in> set ms. alphaTest m \<noteq> 0 \<or> transparent m)))"
  shows "idempotent_at (setAlphaCutoff v) observable M"
proof (cases "correlatedObjects M")
  case None
  then show ?thesis
    by (simp add: idempotent_at_def setAlphaCutoff_def leaves_def observable_def)
next
  case (Some ms)
  have "\<forall>m \<in> set ms. setAlphaCutoff_body (alphaMode (sourceObject M)) v
                         (setAlphaCutoff_body (alphaMode (sourceObject M)) v m)
                       = setAlphaCutoff_body (alphaMode (sourceObject M)) v m"
    using assms Some by (auto intro!: setAlphaCutoff_body_again)
  then show ?thesis
    using Some
    by (simp add: idempotent_at_def setAlphaCutoff_def leaves_def observable_def)
qed

lemma keep_flags:
  "\<not> transparent m \<Longrightarrow> depthWrite m \<Longrightarrow> m\<lparr>transparent := False, depthWrite := True\<rparr> = m"
  by (cases m) simp

lemma keep_alphaTest: "alphaTest m = c \<Longrightarrow> m\<lparr>alphaTest := c\<rparr> = m"
  by (cases m) simp

lemma keep_alphaCutoff: "alphaCutoff g = c \<Longrightarrow> g\<lparr>alphaCutoff := c\<rparr> = g"
  by (cases g) simp

lemma keep_alphaMode: "alphaMode g = c \<Longrightarrow> g\<lparr>alphaMode := c\<rparr> = g"
  by (cases g) simp

lemma setAlphaMode_MASK_settled:
  assumes mode: "alphaMode (sourceObject t) = Some MASK"
    and cut: "alphaCutoff (sourceObject t) = Some c" and c: "c \<noteq> 0"
    and objs: "correlatedObjects t = Some ms"
    and settled: "\<forall>m \<in> set ms. alphaTest m = c \<and> \<not> transparent m \<and> depthWrite m"
  shows "setAlphaMode MASK t = Inr (t\<lparr>onUpdate_calls := onUpdate_calls t + length ms\<rparr>)"
proof -
  let ?M0 = "t\<lparr>sourceObject := (sourceObject t)\<lparr>alphaMode := Some MASK\<rparr>\<rparr>"
  let ?I = "\<lambda>k u. u = t\<lparr>onUpdate_calls := onUpdate_calls t + k\<rparr>"
  have M0: "?M0 = t" using mode by (simp add: keep_alphaMode)
  have init: "?I 0 ?M0" using M0 by simp
  have same: "map (setAlphaCutoff_body (Some MASK) c) ms = ms"
    using settled c by (intro map_idI) (simp add: setAlphaCutoff_body_def keep_alphaTest)
  have step: "\<And>k u. k < length ms \<Longrightarrow> ?I k u \<Longrightarrow>
                 \<exists>u'. setAlphaMode_body MASK k u = Inr u' \<and> ?I (Suc k) u'"
  proof -
    fix k u assume k: "k < length ms" and u: "?I k u"
    have co: "correlatedObjects u = Some ms" using u objs by simp
    have "\<not> transparent (ms ! k) \<and> depthWrite (ms ! k)" using settled k by simp
    then have upd: "ms[k := (ms ! k)\<lparr>transparent := False, depthWrite := True\<rparr>] = ms"
      by (simp add: keep_flags)
    have src: "sourceObject u = sourceObject t" using u by simp
    show "\<exists>u'. setAlphaMode_body MASK k u = Inr u' \<and> ?I (Suc k) u'"
      using setAlphaMode_body_MASK [OF co, of k] u
      by (simp add: src mode cut upd same keep_alphaCutoff objs)
  qed
  have "\<exists>u. forEachIndex (setAlphaMode_body MASK) [0..<length ms] ?M0 = Inr u \<and> ?I (length ms) u"
    using init step by (rule forEachIndex_invariant [where I = ?I])
  then show ?thesis using objs mode by (simp add: setAlphaMode_def keep_alphaMode)
qed

lemma setAlphaMode_MASK_idempotent:
  assumes "\<forall>ms. correlatedObjects M = Some ms \<longrightarrow> ms \<noteq> [] \<longrightarrow>
             (case alphaCutoff (sourceObject M) of Some x \<Rightarrow> x | None \<Rightarrow> 0.5) \<noteq> 0
             \<and> (length ms = 1 \<longrightarrow> alphaTest (hd ms) \<noteq> 0)"
  shows "idempotent_at (setAlphaMode MASK) observable M"
proof (cases "correlatedObjects M")
  case None
  then show ?thesis
    by (simp add: idempotent_at_def setAlphaMode_def leaves_def observable_def)
next
  case (Some ms)
  show ?thesis
  proof (cases "ms = []")
    case True
    then show ?thesis using Some
      by (simp add: idempotent_at_def setAlphaMode_def leaves_def observable_def)
  next
    case False
    define c where "c = (case alphaCutoff (sourceObject M) of Some x \<Rightarrow> x | None \<Rightarrow> 0.5)"
    have c: "c \<noteq> 0" and one: "length ms = 1 \<longrightarrow> alphaTest (hd ms) \<noteq> 0"
      using assms Some False by (simp_all add: c_def)
    from setAlphaMode_MASK_rounds [OF Some c_def [symmetric] c]
    obtain M' where M': "setAlphaMode MASK M = Inr M'"
      and inv: "mask_round c ms (onUpdate_calls M) (length ms) M'" by blast
    have pos: "0 < length ms" using False by simp
    from inv pos obtain ms' where ms': "correlatedObjects M' = Some ms'" "length ms' = length ms"
      and mode: "alphaMode (sourceObject M') = Some MASK"
      and cut: "alphaCutoff (sourceObject M') = Some c"
      and flags: "\<forall>j<length ms. \<not> transparent (ms' ! j) \<and> depthWrite (ms' ! j)"
      and single: "length ms = 1 \<longrightarrow> alphaTest (ms ! 0) \<noteq> 0 \<longrightarrow> alphaTest (ms' ! 0) = c"
      and many: "1 < length ms \<longrightarrow> (\<forall>j<length ms. alphaTest (ms' ! j) = c)"
      unfolding mask_round_def by blast
    have thr: "\<forall>j<length ms. alphaTest (ms' ! j) = c"
    proof (cases "1 < length ms")
      case True
      then show ?thesis using many by simp
    next
      case False
      then have l: "length ms = 1" using pos by arith
      then have "alphaTest (ms ! 0) \<noteq> 0" using one \<open>ms \<noteq> []\<close> by (simp add: hd_conv_nth)
      then show ?thesis using single l by simp
    qed
    have settled: "\<forall>m \<in> set ms'. alphaTest m = c \<and> \<not> transparent m \<and> depthWrite m"
      using thr flags ms'(2) by (auto simp: in_set_conv_nth)
    have again: "setAlphaMode MASK M' = Inr (M'\<lparr>onUpdate_calls := onUpdate_calls M' + length ms'\<rparr>)"
      using setAlphaMode_MASK_settled [OF mode cut c ms'(1) settled] .
    show ?thesis
      using M' again by (simp add: idempotent_at_def leaves_def observable_def)
  qed
qed

text \<open>
  C4. Every public setter is claimed to be idempotent: two calls in a row with the same
  argument leave the facade, the source document and every correlated renderer object
  as one call does. On a facade in MASK mode over one renderer material with a zero
  alpha-test threshold, setAlphaCutoff(0.7) once leaves the object at the threshold
  -0.5 (the value kept for opaque materials, given to a material in MASK mode), and
  the second call, finding a non-zero threshold, leaves it at the requested 0.7: the
  two observable states differ. setAlphaMode('MASK') inherits this through its call of
  setAlphaCutoff.
\<close>

theorem setAlphaCutoff_not_idempotent:
  "observable (leaves (setAlphaCutoff 0.7
       (liveMaterial (emptyGLTFMaterial\<lparr>alphaMode := Some MASK\<rparr>) [defaultMaterial])))
     = (emptyGLTFMaterial\<lparr>alphaMode := Some MASK, alphaCutoff := Some 0.7\<rparr>,
        Some [defaultMaterial\<lparr>alphaTest := - 0.5\<rparr>])
   \<and> observable (leaves (setAlphaCutoff 0.7 (leaves (setAlphaCutoff 0.7
       (liveMaterial (emptyGLTFMaterial\<lparr>alphaMode := Some MASK\<rparr>) [defaultMaterial])))))
     = (emptyGLTFMaterial\<lparr>alphaMode := Some MASK, alphaCutoff := Some 0.7\<rparr>,
        Some [defaultMaterial\<lparr>alphaTest := 0.7\<rparr>])
   \<and> \<not> idempotent_at (setAlphaCutoff 0.7) observable
         (liveMaterial (emptyGLTFMaterial\<lparr>alphaMode := Some MASK\<rparr>) [defaultMaterial])"
  by (simp add: idempotent_at_def setAlphaCutoff_def setAlphaCutoff_body_def leaves_def
      observable_def liveMaterial_def emptyGLTFMaterial_def defaultMaterial_def)

end
